theory Spec2Isabelle
  imports Complex_Main "HOL-Library.Char_ord" "HOL-Library.List_Lexorder"
begin

section \<open>Bounding boxes\<close>

text \<open>
  The dataclass \<^verbatim>\<open>BBox\<close> of \<^verbatim>\<open>app.py\<close>: four coordinates in degrees. A Python
  \<^verbatim>\<open>float\<close> is modelled as a real number: the methods below only compare, select and
  (for the area) subtract and multiply coordinates, so the model covers every finite
  coordinate; rounding of the area's arithmetic and the value NaN are outside it.
\<close>

record BBox =
  west :: real
  south :: real
  east :: real
  north :: real

text \<open>
  A Python dictionary with string keys is modelled as an association list in insertion
  order, read with \<open>map_of\<close>; every dictionary of the program is built from distinct
  keys. \<^verbatim>\<open>to_envelope\<close> returns a dictionary with the four keys of an ArcGIS envelope.
\<close>

definition to_envelope :: "BBox \<Rightarrow> (string \<times> real) list" where
  "to_envelope b =
     [(''xmin'', west b), (''ymin'', south b), (''xmax'', east b), (''ymax'', north b)]"

text \<open>
  \<^verbatim>\<open>w, e = sorted([self.west, self.east])\<close>: the two-element list is sorted and then
  unpacked by position.
\<close>

definition normalized :: "BBox \<Rightarrow> BBox" where
  "normalized b =
     (let we = sort [west b, east b];
          sn = sort [south b, north b]
      in \<lparr>west = we ! 0, south = sn ! 0, east = we ! 1, north = sn ! 1\<rparr>)"

definition clamp :: "BBox \<Rightarrow> BBox" where
  "clamp b =
     (let w = max (- 180) (min 180 (west b));
          e = max (- 180) (min 180 (east b));
          s = max (- 90) (min 90 (south b));
          n = max (- 90) (min 90 (north b))
      in \<lparr>west = w, south = s, east = e, north = n\<rparr>)"

definition approx_area_deg2 :: "BBox \<Rightarrow> real" where
  "approx_area_deg2 b0 =
     (let b = clamp (normalized b0)
      in max 0 ((east b - west b) * (north b - south b)))"

section \<open>Requests to the feature service\<close>

text \<open>
  The values that the code puts into the \<^verbatim>\<open>params\<close> dictionary of a request: strings,
  integers and the envelope dictionary.
\<close>

datatype pval = PStr string | PInt int | PEnvelope "(string \<times> real) list"

record http_request =
  url :: string
  params :: "(string \<times> pval) list"
  timeout_s :: int

text \<open>
  The values found under the keys \<^verbatim>\<open>count\<close> and \<^verbatim>\<open>features\<close> of a decoded response: an
  integer, a list of features (\<open>'f\<close> is the type of one GeoJSON feature), or
  \<^verbatim>\<open>null\<close>. Strings, fractions and nested objects under these two keys are outside the
  model.
\<close>

datatype 'f json = JInt int | JList "'f list" | JNull

text \<open>
  What \<^verbatim>\<open>requests.get\<close> meets: no response at all (connection failure, timeout), or a
  response with a status code and a body, which is a JSON object or not decodable.
\<close>

datatype 'f http_response = No_response | Response nat "(string \<times> 'f json) list option"

text \<open>
  The network and the remote service: the answer to a request may depend on every
  request sent before it. The list of requests sent so far is the state that the
  functions below pass along; a request is a network call exactly when it is in that list.
\<close>

type_synonym 'f remote = "http_request list \<Rightarrow> http_request \<Rightarrow> 'f http_response"

datatype error = RequestException | HTTPError nat | JSONDecodeError | TypeError | ZeroDivisionError

text \<open>
  \<^verbatim>\<open>_http_get_json\<close>: \<^verbatim>\<open>requests.get\<close> raises when there is no response,
  \<^verbatim>\<open>raise_for_status\<close> raises for a status from 400 to 599, and \<^verbatim>\<open>r.json()\<close> raises when the
  body is not JSON. (Isabelle names cannot start with an underscore.)
\<close>

definition http_get_json ::
  "'f remote \<Rightarrow> string \<Rightarrow> (string \<times> pval) list \<Rightarrow> http_request list
   \<Rightarrow> (error + (string \<times> 'f json) list) \<times> http_request list" where
  "http_get_json srv u ps sent =
     (let r = \<lparr>url = u, params = ps, timeout_s = 30\<rparr>;
          sent' = sent @ [r]
      in case srv sent r of
           No_response \<Rightarrow> (Inl RequestException, sent')
         | Response status body \<Rightarrow>
             if 400 \<le> status \<and> status < 600 then (Inl (HTTPError status), sent')
             else (case body of
                     None \<Rightarrow> (Inl JSONDecodeError, sent')
                   | Some d \<Rightarrow> (Inr d, sent')))"

definition arcgis_query_geojson ::
  "'f remote \<Rightarrow> string \<Rightarrow> string \<Rightarrow> string \<Rightarrow> BBox option \<Rightarrow> int \<Rightarrow> int
   \<Rightarrow> http_request list \<Rightarrow> (error + (string \<times> 'f json) list) \<times> http_request list" where
  "arcgis_query_geojson srv layer_url whr out_fields bbox result_record_count result_offset sent =
     (let query_url = layer_url @ ''/query'';
          ps = [(''f'', PStr ''geojson''),
                (''where'', PStr whr),
                (''outFields'', PStr out_fields),
                (''returnGeometry'', PStr ''true''),
                (''outSR'', PStr ''4326''),
                (''resultRecordCount'', PInt result_record_count),
                (''resultOffset'', PInt result_offset)];
          ps = (case bbox of
                  None \<Rightarrow> ps
                | Some bb \<Rightarrow>
                    let b = clamp (normalized bb)
                    in ps @ [(''geometry'', PEnvelope (to_envelope b)),
                             (''geometryType'', PStr ''esriGeometryEnvelope''),
                             (''inSR'', PStr ''4326''),
                             (''spatialRel'', PStr ''esriSpatialRelIntersects'')])
      in http_get_json srv query_url ps sent)"

text \<open>
  \<^verbatim>\<open>_arcgis_count\<close> ends with \<^verbatim>\<open>int(data.get("count", 0))\<close>: a missing key counts as \<open>0\<close>,
  and \<^verbatim>\<open>int\<close> raises on a value that is not a number.
\<close>

definition arcgis_count ::
  "'f remote \<Rightarrow> string \<Rightarrow> string \<Rightarrow> BBox option \<Rightarrow> http_request list
   \<Rightarrow> (error + int) \<times> http_request list" where
  "arcgis_count srv layer_url whr bbox sent =
     (let query_url = layer_url @ ''/query'';
          ps = [(''f'', PStr ''json''),
                (''where'', PStr whr),
                (''returnCountOnly'', PStr ''true'')];
          ps = (case bbox of
                  None \<Rightarrow> ps
                | Some bb \<Rightarrow>
                    let b = clamp (normalized bb)
                    in ps @ [(''geometry'', PEnvelope (to_envelope b)),
                             (''geometryType'', PStr ''esriGeometryEnvelope''),
                             (''inSR'', PStr ''4326''),
                             (''spatialRel'', PStr ''esriSpatialRelIntersects'')])
      in case http_get_json srv query_url ps sent of
           (Inl e, sent') \<Rightarrow> (Inl e, sent')
         | (Inr data, sent') \<Rightarrow>
             (case map_of data ''count'' of
                None \<Rightarrow> (Inr 0, sent')
              | Some (JInt n) \<Rightarrow> (Inr n, sent')
              | Some _ \<Rightarrow> (Inl TypeError, sent')))"

section \<open>The paginated fetch\<close>

text \<open>The dictionary \<^verbatim>\<open>{"type": "FeatureCollection", "features": [...]}\<close>.\<close>

record 'f geojson =
  type_name :: string
  features :: "'f list"

definition FeatureCollection :: "'f list \<Rightarrow> 'f geojson" where
  "FeatureCollection fs = \<lparr>type_name = ''FeatureCollection'', features = fs\<rparr>"

text \<open>
  The slice \<^verbatim>\<open>xs[:n]\<close>: the first \<open>n\<close> elements, and for a negative \<open>n\<close> all but the
  last \<open>- n\<close>.
\<close>

definition slice_to :: "'a list \<Rightarrow> int \<Rightarrow> 'a list" where
  "slice_to xs n = (if 0 \<le> n then take (nat n) xs else take (length xs - nat (- n)) xs)"

text \<open>
  The body of the \<^verbatim>\<open>for i in range(pages)\<close> loop, as a recursion over the indices that
  remain. An exception leaves the loop with the error; \<^verbatim>\<open>break\<close> leaves it with the
  features accumulated so far. \<^verbatim>\<open>chunk.get("features", [])\<close> is the empty list for a
  missing key, and \<^verbatim>\<open>extend\<close> raises on a value that is not a list.
\<close>

fun page_loop ::
  "'f remote \<Rightarrow> string \<Rightarrow> string \<Rightarrow> string \<Rightarrow> BBox option \<Rightarrow> int \<Rightarrow> int
   \<Rightarrow> int list \<Rightarrow> 'f list \<Rightarrow> http_request list \<Rightarrow> (error + 'f list) \<times> http_request list" where
  "page_loop srv layer_url whr out_fields bbox page_size target [] fs sent = (Inr fs, sent)"
| "page_loop srv layer_url whr out_fields bbox page_size target (i # is) fs sent =
     (let offset = i * page_size;
          remaining = target - offset;
          rc = min page_size remaining
      in case arcgis_query_geojson srv layer_url whr out_fields bbox rc offset sent of
           (Inl e, sent') \<Rightarrow> (Inl e, sent')
         | (Inr chunk, sent') \<Rightarrow>
             (case map_of chunk ''features'' of
                None \<Rightarrow>
                  if int (length fs) \<ge> target then (Inr fs, sent')
                  else page_loop srv layer_url whr out_fields bbox page_size target is fs sent'
              | Some (JList chunk_features) \<Rightarrow>
                  if int (length (fs @ chunk_features)) \<ge> target
                  then (Inr (fs @ chunk_features), sent')
                  else page_loop srv layer_url whr out_fields bbox page_size target is
                         (fs @ chunk_features) sent'
              | Some _ \<Rightarrow> (Inl TypeError, sent')))"

text \<open>
  The function under the decorator (Python's \<^verbatim>\<open>fetch_features_geojson.__wrapped__\<close>).
  \<^verbatim>\<open>target / page_size\<close> is a true division, which raises for \<open>page_size = 0\<close>; its
  floating-point quotient has the exact quotient's ceiling for all counts below \<open>2^53\<close>,
  so \<^verbatim>\<open>int(math.ceil(...))\<close> is the ceiling of the exact quotient. \<^verbatim>\<open>range(pages)\<close> is
  \<open>[0..pages - 1]\<close>, empty when \<open>pages \<le> 0\<close>.
\<close>

definition fetch_features_geojson_wrapped ::
  "'f remote \<Rightarrow> string \<Rightarrow> string \<Rightarrow> string \<Rightarrow> BBox option \<Rightarrow> int \<Rightarrow> int
   \<Rightarrow> http_request list \<Rightarrow> (error + 'f geojson) \<times> http_request list" where
  "fetch_features_geojson_wrapped srv layer_url whr out_fields bbox max_features page_size sent =
     (case arcgis_count srv layer_url whr bbox sent of
        (Inl e, sent1) \<Rightarrow> (Inl e, sent1)
      | (Inr total_count, sent1) \<Rightarrow>
          if total_count \<le> 0 then (Inr (FeatureCollection []), sent1)
          else
            let target = min total_count max_features
            in if page_size = 0 then (Inl ZeroDivisionError, sent1)
               else
                 let pages = \<lceil>real_of_int target / real_of_int page_size\<rceil>
                 in case page_loop srv layer_url whr out_fields bbox page_size target
                           [0..pages - 1] [] sent1 of
                      (Inl e, sent2) \<Rightarrow> (Inl e, sent2)
                    | (Inr fs, sent2) \<Rightarrow> (Inr (FeatureCollection (slice_to fs target)), sent2))"

section \<open>The cache around the fetch\<close>

text \<open>
  The decorator \<^verbatim>\<open>@st.cache_data(show_spinner=False, ttl=300)\<close>. The key of an entry is the
  tuple of the arguments as they are passed ("Cached for 5 minutes keyed on inputs").
\<close>

type_synonym cache_key = "string \<times> string \<times> string \<times> BBox option \<times> int \<times> int"

type_synonym 'f cache = "cache_key \<rightharpoonup> real \<times> 'f geojson"

text \<open>
  Modelled from the spec: the memoising wrapper itself is code of the Streamlit library,
  which is not part of the source file. Following section 4.5 of the specification, an
  entry younger than the time-to-live is returned without calling the function; on a
  miss or an expired entry the function is called and its result stored with the
  current time; when the function raises, nothing is stored. \<open>now\<close> is the clock
  reading at the call, in seconds.
\<close>

definition cache_lookup :: "real \<Rightarrow> 'f cache \<Rightarrow> cache_key \<Rightarrow> real \<Rightarrow> 'f geojson option" where
  "cache_lookup ttl cache key now =
     (case cache key of
        None \<Rightarrow> None
      | Some (stored, v) \<Rightarrow> if now - stored < ttl then Some v else None)"

definition cache_data ::
  "real \<Rightarrow> (http_request list \<Rightarrow> (error + 'f geojson) \<times> http_request list)
   \<Rightarrow> cache_key \<Rightarrow> real \<Rightarrow> 'f cache \<Rightarrow> http_request list
   \<Rightarrow> (error + 'f geojson) \<times> 'f cache \<times> http_request list" where
  "cache_data ttl fn key now cache sent =
     (case cache_lookup ttl cache key now of
        Some v \<Rightarrow> (Inr v, cache, sent)
      | None \<Rightarrow>
          (case fn sent of
             (Inl e, sent') \<Rightarrow> (Inl e, cache, sent')
           | (Inr v, sent') \<Rightarrow> (Inr v, cache(key \<mapsto> (now, v)), sent')))"

definition fetch_features_geojson ::
  "'f remote \<Rightarrow> real \<Rightarrow> string \<Rightarrow> string \<Rightarrow> string \<Rightarrow> BBox option \<Rightarrow> int \<Rightarrow> int
   \<Rightarrow> 'f cache \<Rightarrow> http_request list
   \<Rightarrow> (error + 'f geojson) \<times> 'f cache \<times> http_request list" where
  "fetch_features_geojson srv now layer_url whr out_fields bbox max_features page_size =
     cache_data 300
       (fetch_features_geojson_wrapped srv layer_url whr out_fields bbox max_features page_size)
       (layer_url, whr, out_fields, bbox, max_features, page_size) now"

section \<open>The viewport checks of the page\<close>

text \<open>
  The part of \<^verbatim>\<open>main\<close> that decides on a fetch (lines 330 to 361), with the values of the
  widgets and of the map as parameters. Each \<^verbatim>\<open>st.stop()\<close> ends the run; the outcome
  names the place where the run ended. \<^verbatim>\<open>requests.HTTPError\<close> is caught first, then
  \<^verbatim>\<open>requests.RequestException\<close>, which in \<^verbatim>\<open>requests\<close> also covers the decoding error of
  \<^verbatim>\<open>r.json()\<close>; any other exception is not caught.
\<close>

datatype 'f outcome =
    TooFarZoomedOut
  | ViewportTooLarge
  | ArcGISQueryFailed error
  | NetworkError error
  | Uncaught error
  | NoFeaturesFound
  | Shown "'f list"

fun str_join :: "string \<Rightarrow> string list \<Rightarrow> string" where
  "str_join sep [] = []"
| "str_join sep [x] = x"
| "str_join sep (x # y # ys) = x @ sep @ str_join sep (y # ys)"

definition main_load ::
  "'f remote \<Rightarrow> real \<Rightarrow> string \<Rightarrow> string \<Rightarrow> string list \<Rightarrow> int \<Rightarrow> int \<Rightarrow> int
   \<Rightarrow> BBox option \<Rightarrow> 'f cache \<Rightarrow> http_request list
   \<Rightarrow> 'f outcome \<times> 'f cache \<times> http_request list" where
  "main_load srv now layer_url whr popup_fields max_features min_zoom current_zoom bbox
      cache sent =
     (if current_zoom < min_zoom then (TooFarZoomedOut, cache, sent)
      else if (case bbox of None \<Rightarrow> False | Some b \<Rightarrow> approx_area_deg2 b > 2.0)
      then (ViewportTooLarge, cache, sent)
      else
        let out_fields =
              str_join '',''
                (sort (remdups (popup_fields @
                   [''PARCEL_ADDR'', ''PRIMARY_OWNER'', ''SBL'', ''PRINT_KEY''])))
        in case fetch_features_geojson srv now layer_url whr out_fields bbox max_features 1000
                  cache sent of
             (Inl (HTTPError status), cache', sent') \<Rightarrow>
                (ArcGISQueryFailed (HTTPError status), cache', sent')
           | (Inl RequestException, cache', sent') \<Rightarrow> (NetworkError RequestException, cache', sent')
           | (Inl JSONDecodeError, cache', sent') \<Rightarrow> (NetworkError JSONDecodeError, cache', sent')
           | (Inl e, cache', sent') \<Rightarrow> (Uncaught e, cache', sent')
           | (Inr geojson, cache', sent') \<Rightarrow>
                if features geojson = [] then (NoFeaturesFound, cache', sent')
                else (Shown (features geojson), cache', sent'))"

section \<open>Observations on a run\<close>

text \<open>
  The requests sent during a call are those after the first \<open>length sent\<close> entries of
  the list it returns. \<open>responses srv sent new\<close> lists the answers that the requests
  \<open>new\<close> received when sent one after the other, starting from the history \<open>sent\<close>.
\<close>

fun responses :: "'f remote \<Rightarrow> http_request list \<Rightarrow> http_request list \<Rightarrow> 'f http_response list" where
  "responses srv sent [] = []"
| "responses srv sent (r # rs) = srv sent r # responses srv (sent @ [r]) rs"

text \<open>
  A response that is a transport error or carries an HTTP error status, and the
  exception that \<^verbatim>\<open>requests\<close> raises for it.
\<close>

fun failed :: "'f http_response \<Rightarrow> bool" where
  "failed No_response = True"
| "failed (Response status body) = (400 \<le> status \<and> status < 600)"

fun raised :: "'f http_response \<Rightarrow> error" where
  "raised No_response = RequestException"
| "raised (Response status body) = HTTPError status"

text \<open>The features that a response contributes to the accumulator.\<close>

fun chunk_of :: "'f http_response \<Rightarrow> 'f list" where
  "chunk_of (Response status (Some d)) =
     (case map_of d ''features'' of Some (JList fs) \<Rightarrow> fs | _ \<Rightarrow> [])"
| "chunk_of _ = []"

text \<open>
  The request that \<^verbatim>\<open>_arcgis_count\<close> builds and the request that \<^verbatim>\<open>_arcgis_query_geojson\<close>
  builds, read off the functions themselves: neither depends on the service or on the
  requests sent before.
\<close>

definition count_request :: "string \<Rightarrow> string \<Rightarrow> BBox option \<Rightarrow> http_request" where
  "count_request layer_url whr bbox =
     last (snd (arcgis_count (\<lambda>sent r. (No_response :: unit http_response)) layer_url whr bbox []))"

definition query_request ::
  "string \<Rightarrow> string \<Rightarrow> string \<Rightarrow> BBox option \<Rightarrow> int \<Rightarrow> int \<Rightarrow> http_request" where
  "query_request layer_url whr out_fields bbox result_record_count result_offset =
     last (snd (arcgis_query_geojson (\<lambda>sent r. (No_response :: unit http_response))
                  layer_url whr out_fields bbox result_record_count result_offset []))"

text \<open>The request of the loop's round \<open>i\<close>: offset \<open>i * page_size\<close>, at most \<open>page_size\<close> records.\<close>

definition planned_request ::
  "string \<Rightarrow> string \<Rightarrow> string \<Rightarrow> BBox option \<Rightarrow> int \<Rightarrow> int \<Rightarrow> int \<Rightarrow> http_request" where
  "planned_request layer_url whr out_fields bbox page_size target i =
     query_request layer_url whr out_fields bbox
       (min page_size (target - i * page_size)) (i * page_size)"

text \<open>
  A count request carries \<^verbatim>\<open>returnCountOnly\<close>; a page request does not, and its window
  is the pair of its \<^verbatim>\<open>resultOffset\<close> and \<^verbatim>\<open>resultRecordCount\<close>.
\<close>

definition is_count_request :: "http_request \<Rightarrow> bool" where
  "is_count_request r = (map_of (params r) ''returnCountOnly'' = Some (PStr ''true''))"

definition page_requests :: "http_request list \<Rightarrow> http_request list" where
  "page_requests rs = filter (\<lambda>r. \<not> is_count_request r) rs"

definition page_window :: "http_request \<Rightarrow> pval option \<times> pval option" where
  "page_window r = (map_of (params r) ''resultOffset'', map_of (params r) ''resultRecordCount'')"

section \<open>Example services\<close>

text \<open>
  A service that answers a count request with \<open>n\<close> and a page request for the window
  \<open>(offset, rc)\<close> with the features \<open>page offset rc\<close>.
\<close>

definition serving :: "int \<Rightarrow> (int \<Rightarrow> int \<Rightarrow> 'f list) \<Rightarrow> 'f remote" where
  "serving n page sent r =
     (if is_count_request r then Response 200 (Some [(''count'', JInt n)])
      else (case page_window r of
              (Some (PInt offset), Some (PInt rc)) \<Rightarrow>
                 Response 200 (Some [(''features'', JList (page offset rc))])
            | _ \<Rightarrow> Response 400 None))"

text \<open>Each page holds exactly the records asked for, every feature labelled with its page's offset.\<close>

definition exact_page :: "int \<Rightarrow> int \<Rightarrow> int list" where
  "exact_page offset rc = replicate (nat rc) offset"

text \<open>A service that ignores \<^verbatim>\<open>resultRecordCount\<close> and answers every page request with 2500 features.\<close>

definition big_page :: "int \<Rightarrow> int \<Rightarrow> int list" where
  "big_page offset rc = replicate 2500 offset"

text \<open>A service that behaves like \<open>srv\<close> for the first \<open>k\<close> requests and answers status 500 from then on.\<close>

definition failing_after :: "nat \<Rightarrow> 'f remote \<Rightarrow> 'f remote" where
  "failing_after k srv sent r = (if length sent < k then srv sent r else Response 500 None)"

text \<open>A service that answers like \<open>srv\<close>, but gives every response the status \<open>status\<close>.\<close>

definition with_status :: "nat \<Rightarrow> 'f remote \<Rightarrow> 'f remote" where
  "with_status status srv sent r =
     (case srv sent r of
        No_response \<Rightarrow> No_response
      | Response s body \<Rightarrow> Response status body)"

section \<open>Properties of bounding boxes\<close>

lemma normalized_fields:
  "west (normalized b) = min (west b) (east b)"
  "east (normalized b) = max (west b) (east b)"
  "south (normalized b) = min (south b) (north b)"
  "north (normalized b) = max (south b) (north b)"
  by (simp_all add: normalized_def Let_def)

lemma clamp_fields:
  "west (clamp b) = max (- 180) (min 180 (west b))"
  "east (clamp b) = max (- 180) (min 180 (east b))"
  "south (clamp b) = max (- 90) (min 90 (south b))"
  "north (clamp b) = max (- 90) (min 90 (north b))"
  by (simp_all add: clamp_def Let_def)

text \<open>
  C8. \<^verbatim>\<open>approx_area_deg2\<close> is \<open>max 0 (\<Delta>lon * \<Delta>lat)\<close> taken on the box after
  \<^verbatim>\<open>normalized()\<close> and then \<^verbatim>\<open>clamp()\<close>; it is never negative; and it is \<open>0\<close> for a box of
  zero width or zero height.
\<close>

theorem approx_area_deg2_spec:
  "approx_area_deg2 b =
     max 0 ((east (clamp (normalized b)) - west (clamp (normalized b))) *
            (north (clamp (normalized b)) - south (clamp (normalized b))))
   \<and> 0 \<le> approx_area_deg2 b
   \<and> (west b = east b \<or> south b = north b \<longrightarrow> approx_area_deg2 b = 0)"
  by (auto simp: approx_area_deg2_def Let_def clamp_fields normalized_fields)

theorem approx_area_deg2_spec_witness:
  "west \<lparr>west = 3, south = 1, east = 3, north = 2\<rparr>
     = east \<lparr>west = 3, south = 1, east = 3, north = 2\<rparr>
   \<and> approx_area_deg2 \<lparr>west = 3, south = 1, east = 3, north = 2\<rparr> = 0
   \<and> south \<lparr>west = 1, south = 5, east = 4, north = 5\<rparr>
     = north \<lparr>west = 1, south = 5, east = 4, north = 5\<rparr>
   \<and> approx_area_deg2 \<lparr>west = 1, south = 5, east = 4, north = 5\<rparr> = 0"
  using approx_area_deg2_spec [of "\<lparr>west = 3, south = 1, east = 3, north = 2\<rparr>"]
        approx_area_deg2_spec [of "\<lparr>west = 1, south = 5, east = 4, north = 5\<rparr>"]
  by simp

text \<open>
  C9. \<^verbatim>\<open>normalized()\<close> returns a box with \<open>west \<le> east\<close> and \<open>south \<le> north\<close>: west and
  east are exchanged when \<open>west > east\<close> and kept otherwise, south and north are exchanged
  when \<open>south > north\<close> and kept otherwise. The function is total: each sorted list has
  the two elements that the unpacking needs.
\<close>

theorem normalized_spec:
  "west (normalized b) \<le> east (normalized b)
   \<and> south (normalized b) \<le> north (normalized b)
   \<and> (if west b > east b
       then west (normalized b) = east b \<and> east (normalized b) = west b
       else west (normalized b) = west b \<and> east (normalized b) = east b)
   \<and> (if south b > north b
       then south (normalized b) = north b \<and> north (normalized b) = south b
       else south (normalized b) = south b \<and> north (normalized b) = north b)
   \<and> length (sort [west b, east b]) = 2
   \<and> length (sort [south b, north b]) = 2"
  by (simp add: normalized_fields)

theorem normalized_spec_witness:
  "west \<lparr>west = 5, south = 1, east = - 2, north = 7\<rparr>
     > east \<lparr>west = 5, south = 1, east = - 2, north = 7\<rparr>
   \<and> west (normalized \<lparr>west = 5, south = 1, east = - 2, north = 7\<rparr>) = - 2
   \<and> east (normalized \<lparr>west = 5, south = 1, east = - 2, north = 7\<rparr>) = 5
   \<and> south (normalized \<lparr>west = 5, south = 1, east = - 2, north = 7\<rparr>) = 1
   \<and> north (normalized \<lparr>west = 5, south = 1, east = - 2, north = 7\<rparr>) = 7"
  using normalized_spec [of "\<lparr>west = 5, south = 1, east = - 2, north = 7\<rparr>"]
  by simp

text \<open>
  C10. \<^verbatim>\<open>clamp()\<close> keeps the ordering of a box that is already ordered, so
  \<^verbatim>\<open>normalized().clamp()\<close> is ordered and lies within \<open>[-180, 180] \<times> [-90, 90]\<close>, although
  \<^verbatim>\<open>clamp()\<close> itself does not sort again. That composition is the box that
  \<^verbatim>\<open>approx_area_deg2\<close> measures, and its envelope is the \<^verbatim>\<open>geometry\<close> parameter of the count
  request and of every page request.
\<close>

theorem clamp_keeps_order:
  "(west b \<le> east b \<and> south b \<le> north b \<longrightarrow>
      west (clamp b) \<le> east (clamp b) \<and> south (clamp b) \<le> north (clamp b))
   \<and> west (clamp (normalized b)) \<le> east (clamp (normalized b))
   \<and> south (clamp (normalized b)) \<le> north (clamp (normalized b))
   \<and> - 180 \<le> west (clamp (normalized b)) \<and> east (clamp (normalized b)) \<le> 180
   \<and> - 90 \<le> south (clamp (normalized b)) \<and> north (clamp (normalized b)) \<le> 90
   \<and> map_of (params (count_request u w (Some b))) ''geometry''
       = Some (PEnvelope (to_envelope (clamp (normalized b))))
   \<and> map_of (params (query_request u w f (Some b) rc off)) ''geometry''
       = Some (PEnvelope (to_envelope (clamp (normalized b))))"
proof -
  have "map_of (params (count_request u w (Some b))) ''geometry''
       = Some (PEnvelope (to_envelope (clamp (normalized b))))"
    by (simp add: count_request_def arcgis_count_def http_get_json_def Let_def)
  moreover have "map_of (params (query_request u w f (Some b) rc off)) ''geometry''
       = Some (PEnvelope (to_envelope (clamp (normalized b))))"
    by (simp add: query_request_def arcgis_query_geojson_def http_get_json_def Let_def)
  ultimately show ?thesis
    by (auto simp: clamp_fields normalized_fields)
qed

theorem clamp_keeps_order_witness:
  "west \<lparr>west = - 200, south = - 95, east = 190, north = 40\<rparr>
     \<le> east \<lparr>west = - 200, south = - 95, east = 190, north = 40\<rparr>
   \<and> south \<lparr>west = - 200, south = - 95, east = 190, north = 40\<rparr>
     \<le> north \<lparr>west = - 200, south = - 95, east = 190, north = 40\<rparr>
   \<and> west (clamp \<lparr>west = - 200, south = - 95, east = 190, north = 40\<rparr>)
     \<le> east (clamp \<lparr>west = - 200, south = - 95, east = 190, north = 40\<rparr>)
   \<and> south (clamp \<lparr>west = - 200, south = - 95, east = 190, north = 40\<rparr>)
     \<le> north (clamp \<lparr>west = - 200, south = - 95, east = 190, north = 40\<rparr>)"
  using clamp_keeps_order [of "\<lparr>west = - 200, south = - 95, east = 190, north = 40\<rparr>"]
  by simp

section \<open>Runs of the query functions\<close>

lemma http_get_json_snd:
  "snd (http_get_json srv u ps sent) = sent @ [\<lparr>url = u, params = ps, timeout_s = 30\<rparr>]"
  by (simp add: http_get_json_def Let_def split: http_response.split option.split)

lemma arcgis_query_geojson_snd:
  "snd (arcgis_query_geojson srv u w f b rc off sent) = sent @ [query_request u w f b rc off]"
  by (simp add: query_request_def arcgis_query_geojson_def Let_def http_get_json_snd)

lemma arcgis_count_snd:
  "snd (arcgis_count srv u w b sent) = sent @ [count_request u w b]"
  by (simp add: count_request_def arcgis_count_def Let_def http_get_json_def
           split: http_response.split option.split json.split)

lemma query_request_window:
  "page_window (query_request u w f b rc off) = (Some (PInt off), Some (PInt rc))"
  "\<not> is_count_request (query_request u w f b rc off)"
  by (simp_all add: query_request_def arcgis_query_geojson_def Let_def http_get_json_def
        page_window_def is_count_request_def split: option.split)

lemma count_request_is_count: "is_count_request (count_request u w b)"
  by (simp add: count_request_def arcgis_count_def Let_def http_get_json_def
        is_count_request_def split: option.split)

lemma http_get_json_fst:
  "fst (http_get_json srv u ps sent) =
     (case srv sent \<lparr>url = u, params = ps, timeout_s = 30\<rparr> of
        No_response \<Rightarrow> Inl RequestException
      | Response status body \<Rightarrow>
          if 400 \<le> status \<and> status < 600 then Inl (HTTPError status)
          else (case body of None \<Rightarrow> Inl JSONDecodeError | Some d \<Rightarrow> Inr d))"
  by (cases "srv sent \<lparr>url = u, params = ps, timeout_s = 30\<rparr>")
     (auto simp: http_get_json_def Let_def split: option.split)

lemma arcgis_query_geojson_fst:
  "fst (arcgis_query_geojson srv u w f b rc off sent) =
     (case srv sent (query_request u w f b rc off) of
        No_response \<Rightarrow> Inl RequestException
      | Response status body \<Rightarrow>
          if 400 \<le> status \<and> status < 600 then Inl (HTTPError status)
          else (case body of None \<Rightarrow> Inl JSONDecodeError | Some d \<Rightarrow> Inr d))"
  by (simp add: query_request_def arcgis_query_geojson_def Let_def http_get_json_fst http_get_json_snd)

lemma count_request_eq:
  "count_request u w b =
     \<lparr>url = u @ ''/query'',
      params = (case b of
                  None \<Rightarrow> [(''f'', PStr ''json''), (''where'', PStr w), (''returnCountOnly'', PStr ''true'')]
                | Some bb \<Rightarrow>
                    [(''f'', PStr ''json''), (''where'', PStr w), (''returnCountOnly'', PStr ''true''),
                     (''geometry'', PEnvelope (to_envelope (clamp (normalized bb)))),
                     (''geometryType'', PStr ''esriGeometryEnvelope''),
                     (''inSR'', PStr ''4326''),
                     (''spatialRel'', PStr ''esriSpatialRelIntersects'')]),
      timeout_s = 30\<rparr>"
  by (cases b) (simp_all add: count_request_def arcgis_count_def Let_def http_get_json_def)

lemma arcgis_count_alt:
  "arcgis_count srv u w b sent =
     (case http_get_json srv (url (count_request u w b)) (params (count_request u w b)) sent of
        (Inl e, sent') \<Rightarrow> (Inl e, sent')
      | (Inr data, sent') \<Rightarrow>
          (case map_of data ''count'' of
             None \<Rightarrow> (Inr 0, sent')
           | Some (JInt n) \<Rightarrow> (Inr n, sent')
           | Some _ \<Rightarrow> (Inl TypeError, sent')))"
  by (cases b) (simp_all add: count_request_eq arcgis_count_def Let_def)

lemma count_request_record:
  "\<lparr>url = url (count_request u w b), params = params (count_request u w b), timeout_s = 30\<rparr>
     = count_request u w b"
  by (simp add: count_request_eq)

lemma arcgis_count_fst:
  "fst (arcgis_count srv u w b sent) =
     (case srv sent (count_request u w b) of
        No_response \<Rightarrow> Inl RequestException
      | Response status body \<Rightarrow>
          if 400 \<le> status \<and> status < 600 then Inl (HTTPError status)
          else (case body of
                  None \<Rightarrow> Inl JSONDecodeError
                | Some d \<Rightarrow>
                    (case map_of d ''count'' of
                       None \<Rightarrow> Inr 0
                     | Some (JInt n) \<Rightarrow> Inr n
                     | Some _ \<Rightarrow> Inl TypeError)))"
  by (cases "srv sent (count_request u w b)")
     (auto simp: arcgis_count_alt http_get_json_def count_request_record Let_def
           split: option.split json.split)

lemma arcgis_query_geojson_eq:
  "arcgis_query_geojson srv u w f b rc off sent =
     (case srv sent (query_request u w f b rc off) of
        No_response \<Rightarrow> Inl RequestException
      | Response status body \<Rightarrow>
          if 400 \<le> status \<and> status < 600 then Inl (HTTPError status)
          else (case body of None \<Rightarrow> Inl JSONDecodeError | Some d \<Rightarrow> Inr d),
      sent @ [query_request u w f b rc off])"
  by (simp add: prod_eq_iff arcgis_query_geojson_fst arcgis_query_geojson_snd)

lemma arcgis_count_eq:
  "arcgis_count srv u w b sent =
     (case srv sent (count_request u w b) of
        No_response \<Rightarrow> Inl RequestException
      | Response status body \<Rightarrow>
          if 400 \<le> status \<and> status < 600 then Inl (HTTPError status)
          else (case body of
                  None \<Rightarrow> Inl JSONDecodeError
                | Some d \<Rightarrow>
                    (case map_of d ''count'' of
                       None \<Rightarrow> Inr 0
                     | Some (JInt n) \<Rightarrow> Inr n
                     | Some _ \<Rightarrow> Inl TypeError)),
      sent @ [count_request u w b])"
  by (simp add: prod_eq_iff arcgis_count_fst arcgis_count_snd)

lemma arcgis_query_geojson_sent:
  assumes "arcgis_query_geojson srv u w f b rc off sent = (r, sent')"
  shows "sent' = sent @ [query_request u w f b rc off]"
proof -
  from assms have "snd (arcgis_query_geojson srv u w f b rc off sent) = sent'" by simp
  then show ?thesis by (simp add: arcgis_query_geojson_snd)
qed

lemma arcgis_count_Inr:
  assumes "arcgis_count srv u w b sent = (Inr n, sent1)"
  shows "sent1 = sent @ [count_request u w b]" "\<not> failed (srv sent (count_request u w b))"
proof -
  from assms have "snd (arcgis_count srv u w b sent) = sent1" by simp
  then show "sent1 = sent @ [count_request u w b]" by (simp add: arcgis_count_snd)
  from assms have "fst (arcgis_count srv u w b sent) = Inr n" by simp
  then show "\<not> failed (srv sent (count_request u w b))"
    by (cases "srv sent (count_request u w b)") (auto simp: arcgis_count_fst split: if_splits)
qed

lemma arcgis_count_Inl:
  assumes "arcgis_count srv u w b sent = (Inl e, sent1)"
  shows "sent1 = sent @ [count_request u w b]"
    "failed (srv sent (count_request u w b)) \<Longrightarrow> e = raised (srv sent (count_request u w b))"
proof -
  from assms have "snd (arcgis_count srv u w b sent) = sent1" by simp
  then show "sent1 = sent @ [count_request u w b]" by (simp add: arcgis_count_snd)
  from assms have "fst (arcgis_count srv u w b sent) = Inl e" by simp
  then show "e = raised (srv sent (count_request u w b))"
    if "failed (srv sent (count_request u w b))"
    using that
    by (cases "srv sent (count_request u w b)") (auto simp: arcgis_count_fst split: if_splits)
qed

lemma page_loop_Cons_Inr:
  assumes "page_loop srv u w f b ps target (i # is) fs sent = (Inr fs', sent')"
  shows "\<not> failed (srv sent (planned_request u w f b ps target i))
    \<and> (if target \<le> int (length (fs @ chunk_of (srv sent (planned_request u w f b ps target i))))
       then (Inr (fs @ chunk_of (srv sent (planned_request u w f b ps target i))),
             sent @ [planned_request u w f b ps target i])
       else page_loop srv u w f b ps target is
              (fs @ chunk_of (srv sent (planned_request u w f b ps target i)))
              (sent @ [planned_request u w f b ps target i])) = (Inr fs', sent')"
proof (cases "srv sent (planned_request u w f b ps target i)")
  case No_response
  with assms show ?thesis
    by (simp add: arcgis_query_geojson_eq planned_request_def Let_def)
next
  case (Response status body)
  with assms show ?thesis
    by (cases body)
       (auto simp: arcgis_query_geojson_eq planned_request_def Let_def
             split: option.splits json.splits if_splits)
qed

lemma page_loop_Cons_Inl:
  assumes "page_loop srv u w f b ps target (i # is) fs sent = (Inl e, sent')"
  shows "(sent' = sent @ [planned_request u w f b ps target i]
           \<and> (failed (srv sent (planned_request u w f b ps target i))
                \<longrightarrow> e = raised (srv sent (planned_request u w f b ps target i))))
       \<or> (\<not> failed (srv sent (planned_request u w f b ps target i))
           \<and> page_loop srv u w f b ps target is
                (fs @ chunk_of (srv sent (planned_request u w f b ps target i)))
                (sent @ [planned_request u w f b ps target i]) = (Inl e, sent'))"
proof (cases "srv sent (planned_request u w f b ps target i)")
  case No_response
  with assms show ?thesis
    by (simp add: arcgis_query_geojson_eq planned_request_def Let_def)
next
  case (Response status body)
  with assms show ?thesis
    by (cases body)
       (auto simp: arcgis_query_geojson_eq planned_request_def Let_def
             split: option.splits json.splits if_splits)
qed

lemma page_loop_Inr:
  assumes "page_loop srv u w f b ps target idxs fs sent = (Inr fs', sent')"
  shows "\<exists>new. sent' = sent @ new
           \<and> length new \<le> length idxs
           \<and> new = map (planned_request u w f b ps target) (take (length new) idxs)
           \<and> (\<forall>a \<in> set (responses srv sent new). \<not> failed a)
           \<and> fs' = fs @ concat (map chunk_of (responses srv sent new))
           \<and> (\<forall>k. Suc k < length new \<longrightarrow>
                  int (length (fs @ concat (map chunk_of (take (Suc k) (responses srv sent new)))))
                    < target)
           \<and> (length new < length idxs \<longrightarrow> target \<le> int (length fs'))"
  using assms
proof (induction idxs arbitrary: fs sent)
  case Nil
  then show ?case by simp
next
  case (Cons i "is")
  let ?q = "planned_request u w f b ps target i"
  let ?c = "chunk_of (srv sent ?q)"
  from page_loop_Cons_Inr [OF Cons.prems]
  have ok: "\<not> failed (srv sent ?q)"
    and step: "(if target \<le> int (length (fs @ ?c)) then (Inr (fs @ ?c), sent @ [?q])
               else page_loop srv u w f b ps target is (fs @ ?c) (sent @ [?q])) = (Inr fs', sent')"
    by simp_all
  show ?case
  proof (cases "target \<le> int (length (fs @ ?c))")
    case True
    with step have "fs' = fs @ ?c" "sent' = sent @ [?q]" by simp_all
    with ok True show ?thesis
      by (intro exI [of _ "[?q]"]) simp
  next
    case False
    with step have "page_loop srv u w f b ps target is (fs @ ?c) (sent @ [?q]) = (Inr fs', sent')"
      by simp
    from Cons.IH [OF this] obtain new where
      n1: "sent' = (sent @ [?q]) @ new"
      and n2: "length new \<le> length is"
      and n3: "new = map (planned_request u w f b ps target) (take (length new) is)"
      and n4: "\<forall>a \<in> set (responses srv (sent @ [?q]) new). \<not> failed a"
      and n5: "fs' = (fs @ ?c) @ concat (map chunk_of (responses srv (sent @ [?q]) new))"
      and n6: "\<forall>k. Suc k < length new \<longrightarrow>
                  int (length ((fs @ ?c) @ concat (map chunk_of
                     (take (Suc k) (responses srv (sent @ [?q]) new))))) < target"
      and n7: "length new < length is \<longrightarrow> target \<le> int (length fs')"
      by blast
    have brk: "int (length (fs @ concat (map chunk_of
                  (take (Suc k) (responses srv sent (?q # new)))))) < target"
      if "Suc k < length (?q # new)" for k
    proof (cases k)
      case 0
      with False show ?thesis by simp
    next
      case (Suc k')
      with that n6 show ?thesis by simp
    qed
    show ?thesis
    proof (intro exI [of _ "?q # new"] conjI)
      show "sent' = sent @ ?q # new" using n1 by simp
      show "length (?q # new) \<le> length (i # is)" using n2 by simp
      show "?q # new = map (planned_request u w f b ps target) (take (length (?q # new)) (i # is))"
        using n3 by simp
      show "\<forall>a \<in> set (responses srv sent (?q # new)). \<not> failed a" using ok n4 by simp
      show "fs' = fs @ concat (map chunk_of (responses srv sent (?q # new)))" using n5 by simp
      show "\<forall>k. Suc k < length (?q # new) \<longrightarrow>
              int (length (fs @ concat (map chunk_of (take (Suc k) (responses srv sent (?q # new))))))
                < target"
        using brk by blast
      show "length (?q # new) < length (i # is) \<longrightarrow> target \<le> int (length fs')" using n7 by simp
    qed
  qed
qed

lemma page_loop_Inl:
  assumes "page_loop srv u w f b ps target idxs fs sent = (Inl e, sent')"
  shows "\<exists>new. sent' = sent @ new
           \<and> new \<noteq> []
           \<and> length new \<le> length idxs
           \<and> new = map (planned_request u w f b ps target) (take (length new) idxs)
           \<and> (\<forall>a \<in> set (butlast (responses srv sent new)). \<not> failed a)
           \<and> (failed (last (responses srv sent new))
                 \<longrightarrow> e = raised (last (responses srv sent new)))"
  using assms
proof (induction idxs arbitrary: fs sent)
  case Nil
  then show ?case by simp
next
  case (Cons i "is")
  let ?q = "planned_request u w f b ps target i"
  let ?c = "chunk_of (srv sent ?q)"
  from page_loop_Cons_Inl [OF Cons.prems]
  consider (now) "sent' = sent @ [?q]" "failed (srv sent ?q) \<longrightarrow> e = raised (srv sent ?q)"
    | (later) "\<not> failed (srv sent ?q)"
        "page_loop srv u w f b ps target is (fs @ ?c) (sent @ [?q]) = (Inl e, sent')"
    by blast
  then show ?case
  proof cases
    case now
    then show ?thesis by (intro exI [of _ "[?q]"]) simp
  next
    case later
    from Cons.IH [OF later(2)] obtain new where
      n1: "sent' = (sent @ [?q]) @ new"
      and n0: "new \<noteq> []"
      and n2: "length new \<le> length is"
      and n3: "new = map (planned_request u w f b ps target) (take (length new) is)"
      and n4: "\<forall>a \<in> set (butlast (responses srv (sent @ [?q]) new)). \<not> failed a"
      and n5: "failed (last (responses srv (sent @ [?q]) new))
                 \<longrightarrow> e = raised (last (responses srv (sent @ [?q]) new))"
      by blast
    from n0 have ne: "responses srv (sent @ [?q]) new \<noteq> []" by (cases new) simp_all
    show ?thesis
    proof (intro exI [of _ "?q # new"] conjI)
      show "sent' = sent @ ?q # new" using n1 by simp
      show "?q # new \<noteq> []" by simp
      show "length (?q # new) \<le> length (i # is)" using n2 by simp
      show "?q # new = map (planned_request u w f b ps target) (take (length (?q # new)) (i # is))"
        using n3 by simp
      show "\<forall>a \<in> set (butlast (responses srv sent (?q # new))). \<not> failed a"
        using later(1) n4 ne by simp
      show "failed (last (responses srv sent (?q # new)))
              \<longrightarrow> e = raised (last (responses srv sent (?q # new)))"
        using n5 ne by simp
    qed
  qed
qed

lemma no_pages:
  assumes "t \<le> 0" "0 < p"
  shows "[0..\<lceil>real_of_int t / real_of_int p\<rceil> - 1] = []"
proof -
  from assms have "real_of_int t / real_of_int p \<le> 0"
    by (simp add: divide_nonpos_pos)
  then have "\<lceil>real_of_int t / real_of_int p\<rceil> \<le> 0" by (simp add: ceiling_le_zero)
  then show ?thesis by simp
qed

lemma wrapped_cases [consumes 1, case_names count_error empty zero_division page_error pages]:
  assumes "fetch_features_geojson_wrapped srv u w f b m p sent = (res, sent')"
  obtains
    e where "arcgis_count srv u w b sent = (Inl e, sent')" "res = Inl e"
  | n where "arcgis_count srv u w b sent = (Inr n, sent')" "n \<le> 0"
      "res = Inr (FeatureCollection [])"
  | n where "arcgis_count srv u w b sent = (Inr n, sent')" "0 < n" "p = 0"
      "res = Inl ZeroDivisionError"
  | n sent1 e where "arcgis_count srv u w b sent = (Inr n, sent1)" "0 < n" "p \<noteq> 0"
      "page_loop srv u w f b p (min n m)
         [0..\<lceil>real_of_int (min n m) / real_of_int p\<rceil> - 1] [] sent1 = (Inl e, sent')"
      "res = Inl e"
  | n sent1 fs where "arcgis_count srv u w b sent = (Inr n, sent1)" "0 < n" "p \<noteq> 0"
      "page_loop srv u w f b p (min n m)
         [0..\<lceil>real_of_int (min n m) / real_of_int p\<rceil> - 1] [] sent1 = (Inr fs, sent')"
      "res = Inr (FeatureCollection (slice_to fs (min n m)))"
proof (cases "arcgis_count srv u w b sent")
  case (Pair r sent1)
  show ?thesis
  proof (cases r)
    case (Inl e)
    with Pair assms that(1) show ?thesis
      by (simp add: fetch_features_geojson_wrapped_def)
  next
    case (Inr n)
    show ?thesis
    proof (cases "n \<le> 0")
      case True
      with Pair Inr assms that(2) show ?thesis
        by (simp add: fetch_features_geojson_wrapped_def)
    next
      case pos: False
      show ?thesis
      proof (cases "p = 0")
        case True
        with pos Pair Inr assms that(3) show ?thesis
          by (simp add: fetch_features_geojson_wrapped_def Let_def)
      next
        case False
        obtain r2 sent2 where loop: "page_loop srv u w f b p (min n m)
           [0..\<lceil>real_of_int (min n m) / real_of_int p\<rceil> - 1] [] sent1 = (r2, sent2)"
          by (cases "page_loop srv u w f b p (min n m)
           [0..\<lceil>real_of_int (min n m) / real_of_int p\<rceil> - 1] [] sent1") blast
        show ?thesis
        proof (cases r2)
          case (Inl e)
          with loop False pos Pair Inr assms that(4) [of n sent1 e] show ?thesis
            by (simp add: fetch_features_geojson_wrapped_def Let_def)
        next
          case (Inr fs)
          with loop False pos Pair \<open>r = Inr n\<close> assms that(5) [of n sent1 fs] show ?thesis
            by (simp add: fetch_features_geojson_wrapped_def Let_def)
        qed
      qed
    qed
  qed
qed

lemma in_set_last:
  assumes "a \<in> set xs" "a \<notin> set (butlast xs)"
  shows "a = last xs"
proof -
  from assms(1) have "xs \<noteq> []" by auto
  then have "xs = butlast xs @ [last xs]" by simp
  then have "set xs = set (butlast xs) \<union> {last xs}"
    by (metis set_append list.simps(15) list.set(1))
  with assms show ?thesis by auto
qed

lemma wrapped_failed:
  assumes run: "fetch_features_geojson_wrapped srv u w f b m p sent = (res, sent')"
    and a: "a \<in> set (responses srv sent (drop (length sent) sent'))"
    and bad: "failed a"
  shows "res = Inl (raised a)"
  using run
proof (cases rule: wrapped_cases)
  case (count_error e)
  from arcgis_count_Inl [OF count_error(1)] a bad count_error(2) show ?thesis by auto
next
  case (empty n)
  from arcgis_count_Inr [OF empty(1)] a bad show ?thesis by auto
next
  case (zero_division n)
  from arcgis_count_Inr [OF zero_division(1)] a bad show ?thesis by auto
next
  case (page_error n sent1 e)
  from arcgis_count_Inr [OF page_error(1)]
  have s1: "sent1 = sent @ [count_request u w b]"
    and ok: "\<not> failed (srv sent (count_request u w b))" by simp_all
  from page_loop_Inl [OF page_error(4)] obtain new where
    n1: "sent' = sent1 @ new"
    and n4: "\<forall>a \<in> set (butlast (responses srv sent1 new)). \<not> failed a"
    and n5: "failed (last (responses srv sent1 new)) \<longrightarrow> e = raised (last (responses srv sent1 new))"
    by blast
  from a s1 n1 have "a = srv sent (count_request u w b) \<or> a \<in> set (responses srv sent1 new)"
    by auto
  with ok bad have mem: "a \<in> set (responses srv sent1 new)" by auto
  with n4 bad have "a = last (responses srv sent1 new)" by (auto intro: in_set_last)
  with n5 bad page_error(5) show ?thesis by simp
next
  case (pages n sent1 fs)
  from arcgis_count_Inr [OF pages(1)]
  have s1: "sent1 = sent @ [count_request u w b]"
    and ok: "\<not> failed (srv sent (count_request u w b))" by simp_all
  from page_loop_Inr [OF pages(4)] obtain new where
    n1: "sent' = sent1 @ new"
    and n4: "\<forall>a \<in> set (responses srv sent1 new). \<not> failed a"
    by blast
  from a s1 n1 have "a = srv sent (count_request u w b) \<or> a \<in> set (responses srv sent1 new)"
    by auto
  with ok bad n4 show ?thesis by auto
qed

lemma wrapped_sends_count:
  "\<exists>new. snd (fetch_features_geojson_wrapped srv u w f b m p sent)
           = sent @ count_request u w b # new"
proof -
  obtain res sent' where run: "fetch_features_geojson_wrapped srv u w f b m p sent = (res, sent')"
    by (cases "fetch_features_geojson_wrapped srv u w f b m p sent") blast
  from run have "\<exists>new. sent' = sent @ count_request u w b # new"
  proof (cases rule: wrapped_cases)
    case (count_error e)
    from arcgis_count_Inl(1) [OF count_error(1)] show ?thesis by simp
  next
    case (empty n)
    from arcgis_count_Inr(1) [OF empty(1)] show ?thesis by simp
  next
    case (zero_division n)
    from arcgis_count_Inr(1) [OF zero_division(1)] show ?thesis by simp
  next
    case (page_error n sent1 e)
    from page_loop_Inl [OF page_error(4)] obtain new where "sent' = sent1 @ new" by blast
    with arcgis_count_Inr(1) [OF page_error(1)] show ?thesis by simp
  next
    case (pages n sent1 fs)
    from page_loop_Inr [OF pages(4)] obtain new where "sent' = sent1 @ new" by blast
    with arcgis_count_Inr(1) [OF pages(1)] show ?thesis by simp
  qed
  with run show ?thesis by simp
qed

lemma fetch_miss:
  assumes "cache_lookup 300 cache (u, w, f, b, m, p) now = None"
  shows "fetch_features_geojson srv now u w f b m p cache sent =
     (case fetch_features_geojson_wrapped srv u w f b m p sent of
        (Inl e, sent') \<Rightarrow> (Inl e, cache, sent')
      | (Inr v, sent') \<Rightarrow> (Inr v, cache((u, w, f, b, m, p) \<mapsto> (now, v)), sent'))"
  using assms by (simp add: fetch_features_geojson_def cache_data_def)

lemma fetch_hit:
  assumes "cache_lookup 300 cache (u, w, f, b, m, p) now = Some v"
  shows "fetch_features_geojson srv now u w f b m p cache sent = (Inr v, cache, sent)"
  using assms by (simp add: fetch_features_geojson_def cache_data_def)

lemma cache_lookup_later:
  assumes "cache_lookup ttl cache key now = None" "now \<le> now'"
  shows "cache_lookup ttl cache key now' = None"
  using assms by (auto simp: cache_lookup_def split: option.splits if_splits)

section \<open>Runs against the example services\<close>

lemma serving_count:
  "arcgis_count (serving n page) u w b sent = (Inr n, sent @ [count_request u w b])"
  by (simp add: prod_eq_iff arcgis_count_fst arcgis_count_snd serving_def count_request_is_count)

lemma serving_page:
  "arcgis_query_geojson (serving n page) u w f b rc off sent
     = (Inr [(''features'', JList (page off rc))], sent @ [query_request u w f b rc off])"
  by (simp add: prod_eq_iff arcgis_query_geojson_fst arcgis_query_geojson_snd serving_def
        query_request_window)

lemma serving_small:
  "fetch_features_geojson_wrapped (serving 2 exact_page) u w f b 2000 1000 sent
     = (Inr (FeatureCollection [0, 0]),
        sent @ [count_request u w b, query_request u w f b 2 0])"
  by (simp add: fetch_features_geojson_wrapped_def serving_count serving_page Let_def upto.simps
        exact_page_def slice_to_def numeral_2_eq_2)

lemma big_run:
  "fetch_features_geojson_wrapped (serving 10000 big_page) u w f b 2000 1000 []
     = (Inr (FeatureCollection (replicate 2000 0)),
        [count_request u w b, query_request u w f b 1000 0])"
  by (simp add: fetch_features_geojson_wrapped_def serving_count serving_page Let_def upto.simps
        big_page_def slice_to_def)

lemma failing_run:
  "fetch_features_geojson_wrapped (failing_after 2 (serving 10 exact_page)) u w f b 5 2 []
     = (Inl (HTTPError 500),
        [count_request u w b, query_request u w f b 2 0, query_request u w f b 2 2])"
  by (simp add: fetch_features_geojson_wrapped_def Let_def upto.simps
        arcgis_count_eq arcgis_query_geojson_eq failing_after_def
        serving_def count_request_is_count query_request_window exact_page_def)

section \<open>Three pages\<close>

text \<open>
  C1 (amended). With \<open>max_features = 2500\<close>, \<open>page_size = 1000\<close> and a count of 10000,
  when each of the three page requests succeeds and returns exactly the number of
  features asked for, the function sends exactly three page requests after the count
  request, with \<^verbatim>\<open>resultOffset\<close> 0, 1000, 2000 and \<^verbatim>\<open>resultRecordCount\<close> 1000, 1000, 500,
  and returns exactly 2500 features: those of the three pages, in the order received.
\<close>

theorem three_pages:
  assumes cnt: "arcgis_count srv u w b sent = (Inr 10000, sent1)"
    and p0: "arcgis_query_geojson srv u w f b 1000 0 sent1 = (Inr c0, sent2)"
      "map_of c0 ''features'' = Some (JList f0)" "length f0 = 1000"
    and p1: "arcgis_query_geojson srv u w f b 1000 1000 sent2 = (Inr c1, sent3)"
      "map_of c1 ''features'' = Some (JList f1)" "length f1 = 1000"
    and p2: "arcgis_query_geojson srv u w f b 500 2000 sent3 = (Inr c2, sent4)"
      "map_of c2 ''features'' = Some (JList f2)" "length f2 = 500"
  shows "fetch_features_geojson_wrapped srv u w f b 2500 1000 sent
           = (Inr (FeatureCollection (f0 @ f1 @ f2)), sent4)
       \<and> length (f0 @ f1 @ f2) = 2500
       \<and> map page_window (page_requests (drop (length sent) sent4))
           = [(Some (PInt 0), Some (PInt 1000)),
              (Some (PInt 1000), Some (PInt 1000)),
              (Some (PInt 2000), Some (PInt 500))]"
proof -
  have pages: "[0..\<lceil>real_of_int (min 10000 2500) / real_of_int 1000\<rceil> - 1] = [0, 1, 2]"
    by (simp add: upto.simps)
  have loop: "page_loop srv u w f b 1000 2500 [0, 1, 2] [] sent1 = (Inr (f0 @ f1 @ f2), sent4)"
    using p0 p1 p2 by (simp add: Let_def)
  have run: "fetch_features_geojson_wrapped srv u w f b 2500 1000 sent
           = (Inr (FeatureCollection (f0 @ f1 @ f2)), sent4)"
    using cnt pages loop p0(3) p1(3) p2(3)
    by (simp add: fetch_features_geojson_wrapped_def Let_def slice_to_def)
  have sent4: "sent4 = sent @ [count_request u w b, query_request u w f b 1000 0,
                 query_request u w f b 1000 1000, query_request u w f b 500 2000]"
    using arcgis_count_Inr(1) [OF cnt] arcgis_query_geojson_sent [OF p0(1)]
      arcgis_query_geojson_sent [OF p1(1)] arcgis_query_geojson_sent [OF p2(1)]
    by simp
  have win: "map page_window (page_requests (drop (length sent) sent4))
           = [(Some (PInt 0), Some (PInt 1000)),
              (Some (PInt 1000), Some (PInt 1000)),
              (Some (PInt 2000), Some (PInt 500))]"
    by (simp add: sent4 page_requests_def count_request_is_count query_request_window)
  show ?thesis using run win p0(3) p1(3) p2(3) by simp
qed

theorem three_pages_witness:
  "fetch_features_geojson_wrapped (serving 10000 exact_page) ''https://host/FeatureServer/0''
       ''1=1'' ''SBL'' None 2500 1000 []
     = (Inr (FeatureCollection (replicate 1000 0 @ replicate 1000 1000 @ replicate 500 2000)),
        [count_request ''https://host/FeatureServer/0'' ''1=1'' None,
         query_request ''https://host/FeatureServer/0'' ''1=1'' ''SBL'' None 1000 0,
         query_request ''https://host/FeatureServer/0'' ''1=1'' ''SBL'' None 1000 1000,
         query_request ''https://host/FeatureServer/0'' ''1=1'' ''SBL'' None 500 2000])
   \<and> length (replicate 1000 (0::int) @ replicate 1000 1000 @ replicate 500 2000) = 2500"
proof -
  let ?u = "''https://host/FeatureServer/0''"
  have cnt: "arcgis_count (serving 10000 exact_page) ?u ''1=1'' None [] =
      (Inr 10000, [count_request ?u ''1=1'' None])"
    by (simp add: serving_count)
  have p0: "arcgis_query_geojson (serving 10000 exact_page) ?u ''1=1'' ''SBL'' None 1000 0
      [count_request ?u ''1=1'' None]
    = (Inr [(''features'', JList (replicate 1000 0))],
       [count_request ?u ''1=1'' None, query_request ?u ''1=1'' ''SBL'' None 1000 0])"
    by (simp add: serving_page exact_page_def)
  have p1: "arcgis_query_geojson (serving 10000 exact_page) ?u ''1=1'' ''SBL'' None 1000 1000
      [count_request ?u ''1=1'' None, query_request ?u ''1=1'' ''SBL'' None 1000 0]
    = (Inr [(''features'', JList (replicate 1000 1000))],
       [count_request ?u ''1=1'' None, query_request ?u ''1=1'' ''SBL'' None 1000 0,
        query_request ?u ''1=1'' ''SBL'' None 1000 1000])"
    by (simp add: serving_page exact_page_def)
  have p2: "arcgis_query_geojson (serving 10000 exact_page) ?u ''1=1'' ''SBL'' None 500 2000
      [count_request ?u ''1=1'' None, query_request ?u ''1=1'' ''SBL'' None 1000 0,
        query_request ?u ''1=1'' ''SBL'' None 1000 1000]
    = (Inr [(''features'', JList (replicate 500 2000))],
       [count_request ?u ''1=1'' None, query_request ?u ''1=1'' ''SBL'' None 1000 0,
        query_request ?u ''1=1'' ''SBL'' None 1000 1000,
        query_request ?u ''1=1'' ''SBL'' None 500 2000])"
    by (simp add: serving_page exact_page_def)
  from three_pages [OF cnt p0 _ _ p1 _ _ p2, of "replicate 1000 0" "replicate 1000 1000"
      "replicate 500 2000"]
  show ?thesis by simp
qed

text \<open>
  Without the condition on the pages the claim fails: a service that answers the first
  page request with 2500 features makes the loop stop after that one request.
\<close>

theorem three_pages_counterexample:
  "map page_window
     (page_requests
        (snd (fetch_features_geojson_wrapped (serving 10000 big_page)
                ''https://host/FeatureServer/0'' ''1=1'' ''SBL'' None 2500 1000 [])))
   = [(Some (PInt 0), Some (PInt 1000))]"
  by (simp add: fetch_features_geojson_wrapped_def serving_count serving_page Let_def upto.simps
        big_page_def page_requests_def count_request_is_count query_request_window)

section \<open>A cap that is not positive\<close>

text \<open>
  C2 (amended). For \<open>max_features \<le> 0\<close> and \<open>page_size > 0\<close> the function still sends the
  count request, which is its first statement, and it is the only request: no page
  request is sent. An error of the count request is raised; otherwise the result is the
  empty FeatureCollection.
\<close>

theorem nonpositive_cap_only_counts:
  assumes "m \<le> 0" "0 < p"
  shows "fetch_features_geojson_wrapped srv u w f b m p sent =
           (case arcgis_count srv u w b sent of
              (Inl e, sent1) \<Rightarrow> (Inl e, sent1)
            | (Inr n, sent1) \<Rightarrow> (Inr (FeatureCollection []), sent1))
       \<and> snd (fetch_features_geojson_wrapped srv u w f b m p sent) = sent @ [count_request u w b]
       \<and> page_requests (drop (length sent) (snd (fetch_features_geojson_wrapped srv u w f b m p sent))) = []"
proof -
  have eq: "fetch_features_geojson_wrapped srv u w f b m p sent =
           (case arcgis_count srv u w b sent of
              (Inl e, sent1) \<Rightarrow> (Inl e, sent1)
            | (Inr n, sent1) \<Rightarrow> (Inr (FeatureCollection []), sent1))"
  proof (cases "arcgis_count srv u w b sent")
    case (Pair r sent1)
    show ?thesis
    proof (cases r)
      case (Inl e)
      with Pair show ?thesis by (simp add: fetch_features_geojson_wrapped_def)
    next
      case (Inr n)
      have "min n m \<le> 0" using assms(1) by simp
      from no_pages [OF this assms(2)] Pair Inr assms(2) show ?thesis
        by (simp add: fetch_features_geojson_wrapped_def Let_def slice_to_def)
    qed
  qed
  have "snd (fetch_features_geojson_wrapped srv u w f b m p sent) = snd (arcgis_count srv u w b sent)"
    by (simp add: eq split: prod.split sum.split)
  then have s: "snd (fetch_features_geojson_wrapped srv u w f b m p sent) = sent @ [count_request u w b]"
    by (simp add: arcgis_count_snd)
  show ?thesis using eq s by (simp add: page_requests_def count_request_is_count)
qed

theorem nonpositive_cap_only_counts_witness:
  "(0::int) \<le> 0 \<and> (0::int) < 1000
   \<and> fetch_features_geojson_wrapped (serving 10 exact_page) ''https://host/FeatureServer/0''
        ''1=1'' ''SBL'' None 0 1000 []
      = (Inr (FeatureCollection []), [count_request ''https://host/FeatureServer/0'' ''1=1'' None])"
proof -
  have c: "arcgis_count (serving 10 exact_page) ''https://host/FeatureServer/0'' ''1=1'' None []
     = (Inr 10, [count_request ''https://host/FeatureServer/0'' ''1=1'' None])"
    by (simp add: prod_eq_iff arcgis_count_fst arcgis_count_snd serving_def count_request_is_count)
  have "(0::int) \<le> 0" "(0::int) < 1000" by simp_all
  from nonpositive_cap_only_counts [OF this, of "serving 10 exact_page"
      "''https://host/FeatureServer/0''" "''1=1''" "''SBL''" None "[]"] c
  show ?thesis by simp
qed

text \<open>
  The claim as stated, that such a call makes no network call at all, fails: with
  \<open>max_features = 0\<close> the list of requests sent holds one request, the count request.
\<close>

theorem nonpositive_cap_counterexample:
  "map is_count_request
     (snd (fetch_features_geojson_wrapped (serving 10 exact_page) ''https://host/FeatureServer/0''
             ''1=1'' ''SBL'' None 0 1000 []))
   = [True]"
  by (simp add: fetch_features_geojson_wrapped_def Let_def serving_count count_request_is_count
        slice_to_def)

section \<open>The cache key\<close>

text \<open>
  C3 (amended). The key of a cache entry is the tuple of the arguments as they are
  passed: the bounding box is not normalised or clamped and the field list is not sorted
  for the key. When a call misses the cache and its fetch succeeds, a second call with
  identical arguments less than 300 seconds later returns the stored collection and
  sends no request, whatever the service would answer: the fetch ran once.
\<close>

theorem cache_hit_same_arguments:
  assumes miss: "cache_lookup 300 cache (u, w, f, b, m, p) now = None"
    and ok: "fetch_features_geojson_wrapped srv u w f b m p sent = (Inr v, sent1)"
    and ttl: "now' - now < 300"
  shows "fetch_features_geojson srv now u w f b m p cache sent
           = (Inr v, cache((u, w, f, b, m, p) \<mapsto> (now, v)), sent1)
       \<and> fetch_features_geojson srv' now' u w f b m p
             (cache((u, w, f, b, m, p) \<mapsto> (now, v))) sent1
           = (Inr v, cache((u, w, f, b, m, p) \<mapsto> (now, v)), sent1)"
proof -
  have 1: "fetch_features_geojson srv now u w f b m p cache sent
           = (Inr v, cache((u, w, f, b, m, p) \<mapsto> (now, v)), sent1)"
    using miss ok by (simp add: fetch_miss)
  have "cache_lookup 300 (cache((u, w, f, b, m, p) \<mapsto> (now, v))) (u, w, f, b, m, p) now' = Some v"
    using ttl by (simp add: cache_lookup_def)
  from fetch_hit [OF this] 1 show ?thesis by simp
qed

theorem cache_hit_same_arguments_witness:
  "fetch_features_geojson (serving 2 exact_page) 0 ''https://host/FeatureServer/0'' ''1=1'' ''SBL''
       (Some \<lparr>west = 3, south = 2, east = 1, north = 4\<rparr>) 2000 1000 Map.empty []
   = (Inr (FeatureCollection [0, 0]),
      Map.empty((''https://host/FeatureServer/0'', ''1=1'', ''SBL'',
                   Some \<lparr>west = 3, south = 2, east = 1, north = 4\<rparr>, 2000, 1000)
                  \<mapsto> (0, FeatureCollection [0, 0])),
      [count_request ''https://host/FeatureServer/0'' ''1=1''
          (Some \<lparr>west = 3, south = 2, east = 1, north = 4\<rparr>),
        query_request ''https://host/FeatureServer/0'' ''1=1'' ''SBL''
          (Some \<lparr>west = 3, south = 2, east = 1, north = 4\<rparr>) 2 0])
   \<and> fetch_features_geojson (serving 2 exact_page) 10 ''https://host/FeatureServer/0'' ''1=1'' ''SBL''
       (Some \<lparr>west = 3, south = 2, east = 1, north = 4\<rparr>) 2000 1000
       (Map.empty((''https://host/FeatureServer/0'', ''1=1'', ''SBL'',
                   Some \<lparr>west = 3, south = 2, east = 1, north = 4\<rparr>, 2000, 1000)
                  \<mapsto> (0, FeatureCollection [0, 0])))
       [count_request ''https://host/FeatureServer/0'' ''1=1''
          (Some \<lparr>west = 3, south = 2, east = 1, north = 4\<rparr>),
        query_request ''https://host/FeatureServer/0'' ''1=1'' ''SBL''
          (Some \<lparr>west = 3, south = 2, east = 1, north = 4\<rparr>) 2 0]
   = (Inr (FeatureCollection [0, 0]),
      Map.empty((''https://host/FeatureServer/0'', ''1=1'', ''SBL'',
                   Some \<lparr>west = 3, south = 2, east = 1, north = 4\<rparr>, 2000, 1000)
                  \<mapsto> (0, FeatureCollection [0, 0])),
      [count_request ''https://host/FeatureServer/0'' ''1=1''
          (Some \<lparr>west = 3, south = 2, east = 1, north = 4\<rparr>),
        query_request ''https://host/FeatureServer/0'' ''1=1'' ''SBL''
          (Some \<lparr>west = 3, south = 2, east = 1, north = 4\<rparr>) 2 0])"
proof -
  let ?u = "''https://host/FeatureServer/0''"
  let ?b = "Some \<lparr>west = 3, south = 2, east = 1, north = 4\<rparr>"
  have miss: "cache_lookup 300 (Map.empty :: int cache) (?u, ''1=1'', ''SBL'', ?b, 2000, 1000) 0 = None"
    by (simp add: cache_lookup_def)
  have ok: "fetch_features_geojson_wrapped (serving 2 exact_page) ?u ''1=1'' ''SBL'' ?b 2000 1000 []
     = (Inr (FeatureCollection [0, 0]),
        [count_request ?u ''1=1'' ?b, query_request ?u ''1=1'' ''SBL'' ?b 2 0])"
    using serving_small [of ?u "''1=1''" "''SBL''" ?b "[]"] by simp
  have ttl: "(10::real) - 0 < 300" by simp
  from cache_hit_same_arguments [OF miss ok ttl, of "serving 2 exact_page"]
  show ?thesis by simp
qed

text \<open>
  Equal canonical keys are not enough: two boxes that are equal after
  \<^verbatim>\<open>normalized().clamp()\<close> but differ as passed give two cache entries, and the second
  call, ten seconds after the first, sends a count request and a page request of its
  own.
\<close>

theorem canonical_key_counterexample:
  "clamp (normalized \<lparr>west = 3, south = 2, east = 1, north = 4\<rparr>)
     = clamp (normalized \<lparr>west = 1, south = 2, east = 3, north = 4\<rparr>)
   \<and> (case fetch_features_geojson (serving 2 exact_page) 0 ''https://host/FeatureServer/0''
            ''1=1'' ''SBL'' (Some \<lparr>west = 3, south = 2, east = 1, north = 4\<rparr>) 2000 1000
            Map.empty [] of
        (r1, cache1, sent1) \<Rightarrow>
          length (snd (snd (fetch_features_geojson (serving 2 exact_page) 10
                              ''https://host/FeatureServer/0'' ''1=1'' ''SBL''
                              (Some \<lparr>west = 1, south = 2, east = 3, north = 4\<rparr>) 2000 1000
                              cache1 sent1)))
            = length sent1 + 2)"
  by (simp add: clamp_def normalized_def Let_def fetch_miss cache_lookup_def serving_small)

section \<open>A failing request\<close>

text \<open>
  C4 (amended). When a request sent during a call, the count request or a page request,
  meets a transport error or an HTTP status from 400 to 599 (the statuses for which
  \<^verbatim>\<open>raise_for_status\<close> raises), the call raises the exception of that response. It returns
  no collection, whatever the earlier pages delivered, and the cache is left as it was.
  Any later call with the same arguments runs the function again, which starts by
  sending the count request.
\<close>

theorem failed_request_raises:
  assumes run: "fetch_features_geojson srv now u w f b m p cache sent = (res, cache', sent')"
    and a: "a \<in> set (responses srv sent (drop (length sent) sent'))"
    and bad: "failed a"
  shows "res = Inl (raised a)
       \<and> cache' = cache
       \<and> (\<forall>now'. now \<le> now' \<longrightarrow>
            fetch_features_geojson srv now' u w f b m p cache' sent' =
              (case fetch_features_geojson_wrapped srv u w f b m p sent' of
                 (Inl e, s) \<Rightarrow> (Inl e, cache', s)
               | (Inr v, s) \<Rightarrow> (Inr v, cache'((u, w, f, b, m, p) \<mapsto> (now', v)), s))
          \<and> (\<exists>new. snd (snd (fetch_features_geojson srv now' u w f b m p cache' sent'))
                      = sent' @ count_request u w b # new))"
proof -
  have miss: "cache_lookup 300 cache (u, w, f, b, m, p) now = None"
  proof (cases "cache_lookup 300 cache (u, w, f, b, m, p) now")
    case None
    then show ?thesis .
  next
    case (Some v)
    from fetch_hit [OF this, of srv sent] run have "sent' = sent" by simp
    with a show ?thesis by simp
  qed
  obtain r s where w: "fetch_features_geojson_wrapped srv u w f b m p sent = (r, s)"
    by (cases "fetch_features_geojson_wrapped srv u w f b m p sent") blast
  from run miss w have s: "sent' = s"
    by (auto simp: fetch_miss split: sum.splits)
  from wrapped_failed [OF w] a bad s have r: "r = Inl (raised a)" by simp
  from run miss w r have 1: "res = Inl (raised a)" and 2: "cache' = cache"
    by (simp_all add: fetch_miss)
  have 3: "fetch_features_geojson srv now' u w f b m p cache' sent' =
              (case fetch_features_geojson_wrapped srv u w f b m p sent' of
                 (Inl e, s) \<Rightarrow> (Inl e, cache', s)
               | (Inr v, s) \<Rightarrow> (Inr v, cache'((u, w, f, b, m, p) \<mapsto> (now', v)), s))"
    if "now \<le> now'" for now'
    unfolding 2 by (rule fetch_miss [OF cache_lookup_later [OF miss that]])
  have 4: "\<exists>new. snd (snd (fetch_features_geojson srv now' u w f b m p cache' sent'))
                      = sent' @ count_request u w b # new"
    if "now \<le> now'" for now'
    using wrapped_sends_count [of srv u w f b m p sent'] 3 [OF that]
    by (auto split: prod.splits sum.splits)
  from 1 2 3 4 show ?thesis by blast
qed

theorem failed_request_raises_witness:
  "fetch_features_geojson (failing_after 2 (serving 10 exact_page)) 0
       ''https://host/FeatureServer/0'' ''1=1'' ''SBL'' None 5 2 Map.empty []
     = (Inl (raised (Response 500 None :: int http_response)), Map.empty,
        [count_request ''https://host/FeatureServer/0'' ''1=1'' None,
         query_request ''https://host/FeatureServer/0'' ''1=1'' ''SBL'' None 2 0,
         query_request ''https://host/FeatureServer/0'' ''1=1'' ''SBL'' None 2 2])
   \<and> failed (Response 500 None :: int http_response)
   \<and> responses (failing_after 2 (serving 10 exact_page)) []
        [count_request ''https://host/FeatureServer/0'' ''1=1'' None,
         query_request ''https://host/FeatureServer/0'' ''1=1'' ''SBL'' None 2 0,
         query_request ''https://host/FeatureServer/0'' ''1=1'' ''SBL'' None 2 2]
     = [Response 200 (Some [(''count'', JInt 10)]),
        Response 200 (Some [(''features'', JList (replicate 2 0))]),
        Response 500 None]"
proof -
  let ?u = "''https://host/FeatureServer/0''"
  let ?srv = "failing_after 2 (serving 10 exact_page)"
  let ?sent = "[count_request ?u ''1=1'' None, query_request ?u ''1=1'' ''SBL'' None 2 0,
         query_request ?u ''1=1'' ''SBL'' None 2 2]"
  have run: "fetch_features_geojson ?srv 0 ?u ''1=1'' ''SBL'' None 5 2 Map.empty []
     = (Inl (HTTPError 500), Map.empty, ?sent)"
    by (simp add: fetch_miss cache_lookup_def failing_run)
  have resp: "responses ?srv [] ?sent
     = [Response 200 (Some [(''count'', JInt 10)]),
        Response 200 (Some [(''features'', JList (replicate 2 0))]),
        Response 500 None]"
    by (simp add: failing_after_def serving_def count_request_is_count query_request_window
          exact_page_def)
  have a: "Response 500 None \<in> set (responses ?srv [] (drop (length ([] :: http_request list)) ?sent))"
    by (simp add: failing_after_def)
  have bad: "failed (Response 500 None :: int http_response)" by simp
  from failed_request_raises [OF run a bad] run resp show ?thesis by simp
qed

text \<open>
  A status outside the 2xx range is not enough: \<^verbatim>\<open>raise_for_status\<close> lets a status below
  400 pass. A service that answers every request with status 304 and a JSON body is
  treated like one that answers 200: the call returns the collection and stores it in
  the cache.
\<close>

theorem failed_request_counterexample:
  "responses (with_status 304 (serving 3 exact_page)) []
      [count_request ''https://host/FeatureServer/0'' ''1=1'' None,
       query_request ''https://host/FeatureServer/0'' ''1=1'' ''SBL'' None 3 0]
     = [Response 304 (Some [(''count'', JInt 3)]),
        Response 304 (Some [(''features'', JList (replicate 3 0))])]
   \<and> fetch_features_geojson (with_status 304 (serving 3 exact_page)) 0
       ''https://host/FeatureServer/0'' ''1=1'' ''SBL'' None 2000 1000 Map.empty []
     = (Inr (FeatureCollection (replicate 3 0)),
        Map.empty((''https://host/FeatureServer/0'', ''1=1'', ''SBL'', None, 2000, 1000)
                    \<mapsto> (0, FeatureCollection (replicate 3 0))),
        [count_request ''https://host/FeatureServer/0'' ''1=1'' None,
         query_request ''https://host/FeatureServer/0'' ''1=1'' ''SBL'' None 3 0])"
  by (simp add: fetch_miss cache_lookup_def fetch_features_geojson_wrapped_def Let_def upto.simps
        arcgis_count_eq arcgis_query_geojson_eq with_status_def serving_def
        count_request_is_count query_request_window exact_page_def slice_to_def)

section \<open>The cap on the result\<close>

text \<open>
  C5. A successful fetch returns at most \<open>min total max_features\<close> features, for every
  count \<open>total \<ge> 0\<close> of the count request, every cap \<open>max_features \<ge> 0\<close> and every
  page size. The result is the concatenation of the pages received, in order, cut to
  its first \<open>min total max_features\<close> elements, also when a page holds more features than
  its request asked for; and the loop stops as soon as the accumulated count reaches the
  target: after every page request but the last one sent, the count was still below it.
\<close>

theorem fetch_capped:
  assumes run: "fetch_features_geojson_wrapped srv u w f b m p sent = (Inr v, sent')"
    and cnt: "arcgis_count srv u w b sent = (Inr n, sent1)"
    and count: "0 \<le> n"
    and cap: "0 \<le> m"
  shows "int (length (features v)) \<le> min n m
       \<and> features v = take (nat (min n m))
            (concat (map chunk_of (responses srv sent1 (drop (length sent1) sent'))))
       \<and> (\<forall>k. Suc k < length (drop (length sent1) sent') \<longrightarrow>
              int (length (concat (map chunk_of
                     (take (Suc k) (responses srv sent1 (drop (length sent1) sent'))))))
                < min n m)"
  using run
proof (cases rule: wrapped_cases)
  case (empty n')
  with cnt count cap show ?thesis by (simp add: FeatureCollection_def)
next
  case (pages n' sent1' fs)
  with cnt have eq: "n' = n" "sent1' = sent1" by simp_all
  from page_loop_Inr [OF pages(4)] eq obtain new where
    n1: "sent' = sent1 @ new"
    and n5: "fs = concat (map chunk_of (responses srv sent1 new))"
    and n6: "\<forall>k. Suc k < length new \<longrightarrow>
                int (length (concat (map chunk_of (take (Suc k) (responses srv sent1 new))))) < min n m"
    by auto
  have v: "features v = slice_to fs (min n m)"
    using pages(5) eq by (simp add: FeatureCollection_def)
  from count cap have target: "0 \<le> min n m" by simp
  then have "features v = take (nat (min n m)) fs" by (simp add: v slice_to_def)
  with target n1 n5 n6 show ?thesis by auto
qed simp_all

theorem fetch_capped_witness:
  "fetch_features_geojson_wrapped (serving 10000 big_page) ''https://host/FeatureServer/0''
       ''1=1'' ''SBL'' None 2000 1000 []
     = (Inr (FeatureCollection (replicate 2000 0)),
        [count_request ''https://host/FeatureServer/0'' ''1=1'' None,
         query_request ''https://host/FeatureServer/0'' ''1=1'' ''SBL'' None 1000 0])
   \<and> length (chunk_of (serving 10000 big_page
                 [count_request ''https://host/FeatureServer/0'' ''1=1'' None]
                 (query_request ''https://host/FeatureServer/0'' ''1=1'' ''SBL'' None 1000 0)))
       = 2500
   \<and> int (length (features (FeatureCollection (replicate 2000 (0::int))))) \<le> min 10000 2000
   \<and> features (FeatureCollection (replicate 2000 (0::int)))
       = take (nat (min 10000 2000))
           (concat (map chunk_of
              (responses (serving 10000 big_page)
                 [count_request ''https://host/FeatureServer/0'' ''1=1'' None]
                 [query_request ''https://host/FeatureServer/0'' ''1=1'' ''SBL'' None 1000 0])))"
proof -
  let ?u = "''https://host/FeatureServer/0''"
  have run: "fetch_features_geojson_wrapped (serving 10000 big_page) ?u ''1=1'' ''SBL'' None 2000 1000 []
     = (Inr (FeatureCollection (replicate 2000 0)),
        [count_request ?u ''1=1'' None, query_request ?u ''1=1'' ''SBL'' None 1000 0])"
    by (rule big_run)
  have cnt: "arcgis_count (serving 10000 big_page) ?u ''1=1'' None []
     = (Inr 10000, [count_request ?u ''1=1'' None])"
    by (simp add: serving_count)
  have count: "(0::int) \<le> 10000" by simp
  have cap: "(0::int) \<le> 2000" by simp
  have big: "length (chunk_of (serving 10000 big_page [count_request ?u ''1=1'' None]
                 (query_request ?u ''1=1'' ''SBL'' None 1000 0))) = 2500"
    by (simp add: serving_def query_request_window big_page_def)
  from fetch_capped [OF run cnt count cap] run big show ?thesis by simp
qed

section \<open>An empty count\<close>

text \<open>
  C6. When the count request yields a count \<open>n \<le> 0\<close>, the fetch returns the empty
  FeatureCollection, a value and not an error, right after the count request: that
  request is the only one sent and no page request follows.
\<close>

theorem zero_count_returns_empty:
  assumes "arcgis_count srv u w b sent = (Inr n, sent1)" and "n \<le> 0"
  shows "fetch_features_geojson_wrapped srv u w f b m p sent = (Inr (FeatureCollection []), sent1)
       \<and> sent1 = sent @ [count_request u w b]
       \<and> page_requests (drop (length sent) sent1) = []"
proof -
  have 1: "fetch_features_geojson_wrapped srv u w f b m p sent = (Inr (FeatureCollection []), sent1)"
    using assms by (simp add: fetch_features_geojson_wrapped_def)
  have 2: "sent1 = sent @ [count_request u w b]"
    using arcgis_count_Inr(1) [OF assms(1)] .
  have 3: "page_requests (drop (length sent) sent1) = []"
    by (simp add: 2 page_requests_def count_request_is_count)
  show ?thesis using 1 2 3 by simp
qed

theorem zero_count_returns_empty_witness:
  "arcgis_count (serving 0 exact_page) ''https://host/FeatureServer/0'' ''1=1'' None []
     = (Inr 0, [count_request ''https://host/FeatureServer/0'' ''1=1'' None])
   \<and> fetch_features_geojson_wrapped (serving 0 exact_page) ''https://host/FeatureServer/0'' ''1=1''
       ''SBL'' None 2000 1000 []
     = (Inr (FeatureCollection []), [count_request ''https://host/FeatureServer/0'' ''1=1'' None])"
proof -
  have c: "arcgis_count (serving 0 exact_page) ''https://host/FeatureServer/0'' ''1=1'' None []
     = (Inr 0, [count_request ''https://host/FeatureServer/0'' ''1=1'' None])"
    by (simp add: prod_eq_iff arcgis_count_fst arcgis_count_snd serving_def count_request_is_count)
  from zero_count_returns_empty [OF c, of "''SBL''" 2000 1000] c show ?thesis by simp
qed

section \<open>The viewport checks\<close>

text \<open>
  C7. The run stops as too far zoomed out whenever \<open>current_zoom < min_zoom\<close>; otherwise
  it stops as viewport too large whenever a bounding box is present and its approximate
  area exceeds 2.0 square degrees; otherwise it goes on to the fetch. In both stopping
  cases the cache and the list of requests sent are returned unchanged: the checks come
  before any cache lookup and any network call.
\<close>

theorem viewport_gate:
  "(current_zoom < min_zoom \<longrightarrow>
      main_load srv now u w popup_fields m min_zoom current_zoom bbox cache sent
        = (TooFarZoomedOut, cache, sent))
   \<and> (\<not> current_zoom < min_zoom \<and> bbox = Some bb \<and> approx_area_deg2 bb > 2 \<longrightarrow>
      main_load srv now u w popup_fields m min_zoom current_zoom bbox cache sent
        = (ViewportTooLarge, cache, sent))
   \<and> (\<not> current_zoom < min_zoom \<and> (bbox = None \<or> bbox = Some bb \<and> \<not> approx_area_deg2 bb > 2) \<longrightarrow>
      fst (main_load srv now u w popup_fields m min_zoom current_zoom bbox cache sent)
        \<notin> {TooFarZoomedOut, ViewportTooLarge}
      \<and> snd (main_load srv now u w popup_fields m min_zoom current_zoom bbox cache sent)
        = snd (fetch_features_geojson srv now u w
                 (str_join '',''
                    (sort (remdups (popup_fields @
                       [''PARCEL_ADDR'', ''PRIMARY_OWNER'', ''SBL'', ''PRINT_KEY'']))))
                 bbox m 1000 cache sent))"
proof (intro conjI impI)
  assume "current_zoom < min_zoom"
  then show "main_load srv now u w popup_fields m min_zoom current_zoom bbox cache sent
        = (TooFarZoomedOut, cache, sent)"
    by (simp add: main_load_def)
next
  assume "\<not> current_zoom < min_zoom \<and> bbox = Some bb \<and> approx_area_deg2 bb > 2"
  then show "main_load srv now u w popup_fields m min_zoom current_zoom bbox cache sent
        = (ViewportTooLarge, cache, sent)"
    by (simp add: main_load_def)
next
  assume "\<not> current_zoom < min_zoom \<and> (bbox = None \<or> bbox = Some bb \<and> \<not> approx_area_deg2 bb > 2)"
  then have gate: "\<not> current_zoom < min_zoom"
    "\<not> (case bbox of None \<Rightarrow> False | Some b \<Rightarrow> approx_area_deg2 b > 2.0)"
    by auto
  then show "fst (main_load srv now u w popup_fields m min_zoom current_zoom bbox cache sent)
        \<notin> {TooFarZoomedOut, ViewportTooLarge}"
    by (simp add: main_load_def Let_def split: prod.splits sum.splits error.splits)
  from gate show "snd (main_load srv now u w popup_fields m min_zoom current_zoom bbox cache sent)
        = snd (fetch_features_geojson srv now u w
                 (str_join '',''
                    (sort (remdups (popup_fields @
                       [''PARCEL_ADDR'', ''PRIMARY_OWNER'', ''SBL'', ''PRINT_KEY'']))))
                 bbox m 1000 cache sent)"
    by (simp add: main_load_def Let_def split: prod.splits sum.splits error.splits)
qed

theorem viewport_gate_witness:
  "main_load (serving 10 exact_page) 0 ''https://host/FeatureServer/0'' ''1=1'' [''SBL''] 2000 13 10
      None Map.empty [] = (TooFarZoomedOut, Map.empty, [])
   \<and> approx_area_deg2 \<lparr>west = 0, south = 0, east = 2.5, north = 2\<rparr> = 5
   \<and> main_load (serving 10 exact_page) 0 ''https://host/FeatureServer/0'' ''1=1'' [''SBL''] 2000 13 15
      (Some \<lparr>west = 0, south = 0, east = 2.5, north = 2\<rparr>) Map.empty []
      = (ViewportTooLarge, Map.empty, [])"
proof -
  have area: "approx_area_deg2 \<lparr>west = 0, south = 0, east = 2.5, north = 2\<rparr> = 5"
    by (simp add: approx_area_deg2_def clamp_def normalized_def Let_def)
  from viewport_gate [of 10 13 "serving 10 exact_page" 0 "''https://host/FeatureServer/0''"
      "''1=1''" "[''SBL'']" 2000 None Map.empty "[]"
      "\<lparr>west = 0, south = 0, east = 2.5, north = 2\<rparr>"]
    viewport_gate [of 15 13 "serving 10 exact_page" 0 "''https://host/FeatureServer/0''"
      "''1=1''" "[''SBL'']" 2000 "Some \<lparr>west = 0, south = 0, east = 2.5, north = 2\<rparr>"
      Map.empty "[]" "\<lparr>west = 0, south = 0, east = 2.5, north = 2\<rparr>"]
    area
  show ?thesis by simp
qed

end
